theory Spec2Isabelle
  imports Main "HOL-Library.Word"
begin

section \<open>Data model of machine.go\<close>

text \<open>
  The Go strings are byte sequences and are embedded as \<open>string\<close>. \<open>Memory\<close> is a
  \<open>uint64\<close> and is a 64-bit word. \<open>Cores\<close> and the VNC port are Go \<open>int\<close>s, whose
  width depends on the platform; no arithmetic is done on them in machine.go (they are only
  printed), so they are embedded as \<open>int\<close>.
\<close>

text \<open>
  Modelled from the spec: the declaration of \<open>Image\<close> is not in machine.go. The spec
  describes it as an external image descriptor with path and format fields, and
  \<open>AddDriveImage\<close> reads exactly \<open>img.Path\<close> and \<open>img.Format\<close>. Any further field
  of the Go struct lives in the extension part of the record scheme.
\<close>

record Image =
  Path :: string
  Format :: string

record Drive =
  Path :: string
  Format :: string

text \<open>
  Modelled from the spec: the declaration of \<open>NetDev\<close> is not in machine.go. The spec
  lists kind, id, optional interface name and optional MAC address; \<open>Start\<close> reads them
  as \<open>iface.Type\<close>, \<open>iface.ID\<close>, \<open>iface.IfName\<close> and \<open>iface.MAC\<close>, formats each
  with \<open>%s\<close> and takes the length of the last two, so all four are strings here.
\<close>

record NetDev =
  Type :: string
  ID :: string
  IfName :: string
  MAC :: string

record Machine =
  Cores :: int
  Memory :: "64 word"
  cd :: string
  vnc :: string
  monitor :: string
  drives :: "Drive list"
  ifaces :: "NetDev list"

section \<open>The library functions machine.go calls\<close>

text \<open>
  \<open>strconv.FormatUint(n, 10)\<close> and \<open>strconv.Itoa\<close>: the decimal digits, most
  significant first, with a leading minus sign for a negative \<open>int\<close>.
\<close>

definition digit :: "nat \<Rightarrow> char" where
  "digit d = ''0123456789'' ! d"

fun FormatUint10 :: "nat \<Rightarrow> string" where
  "FormatUint10 n = (if n < 10 then [digit n] else FormatUint10 (n div 10) @ [digit (n mod 10)])"

declare FormatUint10.simps [simp del]

definition Itoa :: "int \<Rightarrow> string" where
  "Itoa i = (if i < 0 then ''-'' @ FormatUint10 (nat (- i)) else FormatUint10 (nat i))"

text \<open>Reading a decimal numeral back, to check the rendering against.\<close>

definition parse_decimal :: "string \<Rightarrow> nat" where
  "parse_decimal s = foldl (\<lambda>acc c. 10 * acc + (of_char c - 48)) 0 s"

text \<open>
  A Go \<open>error\<close> value is either one handed back by os/exec (opaque apart from its
  message) or one built by \<open>fmt.Errorf\<close> from a message.
\<close>

datatype go_error = OsError string | Errorf string

fun Error :: "go_error \<Rightarrow> string" where
  "Error (OsError s) = s"
| "Error (Errorf s) = s"

section \<open>Constructor and mutation operations\<close>

text \<open>
  The methods have a pointer receiver and mutate it; here they take the descriptor and
  return the updated one. \<open>var machine Machine\<close> zero-initialises every field.
\<close>

definition NewMachine :: "int \<Rightarrow> 64 word \<Rightarrow> Machine" where
  "NewMachine cores memory =
     \<lparr>Cores = cores, Memory = memory, cd = [], vnc = [], monitor = [], drives = [], ifaces = []\<rparr>"

definition AddCDRom :: "Machine \<Rightarrow> string \<Rightarrow> Machine" where
  "AddCDRom m dev = m\<lparr>cd := dev\<rparr>"

definition AddDrive :: "Machine \<Rightarrow> Drive \<Rightarrow> Machine" where
  "AddDrive m d = m\<lparr>drives := drives m @ [d]\<rparr>"

definition AddDriveImage :: "Machine \<Rightarrow> 'a Image_scheme \<Rightarrow> Machine" where
  "AddDriveImage m img =
     m\<lparr>drives := drives m @ [\<lparr>Path = Image.Path img, Format = Image.Format img\<rparr>]\<rparr>"

definition AddNetworkDevice :: "Machine \<Rightarrow> NetDev \<Rightarrow> Machine" where
  "AddNetworkDevice m netdev = m\<lparr>ifaces := ifaces m @ [netdev]\<rparr>"

definition AddVNC :: "Machine \<Rightarrow> string \<Rightarrow> int \<Rightarrow> Machine" where
  "AddVNC m addr port = m\<lparr>vnc := addr @ '':'' @ Itoa port\<rparr>"

definition AddMonitorUnix :: "Machine \<Rightarrow> string \<Rightarrow> Machine" where
  "AddMonitorUnix m dev = m\<lparr>monitor := dev\<rparr>"

section \<open>Start: rendering the command line\<close>

text \<open>The two \<open>for ... range\<close> loops of \<open>Start\<close>, each appending to \<open>args\<close>.\<close>

fun drives_loop :: "string list \<Rightarrow> Drive list \<Rightarrow> string list" where
  "drives_loop args [] = args"
| "drives_loop args (drive # rest) =
     drives_loop
       ((args @ [''-drive'']) @ [''file='' @ Drive.Path drive @ '',format='' @ Drive.Format drive])
       rest"

fun ifaces_loop :: "string list \<Rightarrow> NetDev list \<Rightarrow> string list" where
  "ifaces_loop args [] = args"
| "ifaces_loop args (iface # rest) =
     (let s = Type iface @ '',id='' @ ID iface;
          s = (if length (IfName iface) > 0 then s @ '',ifname='' @ IfName iface else s);
          args = (args @ [''-netdev'']) @ [s];
          s = ''virtio-net,netdev='' @ ID iface;
          s = (if length (MAC iface) > 0 then s @ '',mac='' @ MAC iface else s);
          args = (args @ [''-device'']) @ [s]
      in ifaces_loop args rest)"

definition Start_qemu :: "string \<Rightarrow> string" where
  "Start_qemu arch = ''qemu-system-'' @ arch"

definition Start_args :: "Machine \<Rightarrow> bool \<Rightarrow> string list" where
  "Start_args m kvm =
     (let args = [''-smp'', Itoa (Cores m), ''-m'', FormatUint10 (unat (Memory m))];
          args = (if kvm then args @ [''-enable-kvm''] else args);
          args = (if length (cd m) > 0 then (args @ [''-cdrom'']) @ [cd m] else args);
          args = drives_loop args (drives m);
          args = (if length (ifaces m) = 0 then (args @ [''-net'']) @ [''none''] else args);
          args = ifaces_loop args (ifaces m);
          args = (if length (vnc m) > 0 then (args @ [''-vnc'']) @ [vnc m] else args);
          args = (if length (monitor m) > 0
                  then (args @ [''-qmp'']) @ [''unix:'' @ monitor m @ '',server,nowait'']
                  else args)
      in args)"

text \<open>
  Lines 81 to 129 of \<open>Start\<close> once more, statement by statement, on the whole of what
  they can touch: the receiver \<open>*m\<close>, which is reached through a pointer and so could be
  assigned to, and the locals \<open>qemu\<close> and \<open>args\<close>. Every statement is a function from
  this state to the state after it, a \<open>for ... range\<close> loop runs its body once per
  element of the sequence read at loop entry, and nothing here says in advance that the
  receiver comes out as it went in.
\<close>

record render_state =
  st_m :: Machine
  st_qemu :: string
  st_args :: "string list"

definition exec_init :: "string \<Rightarrow> render_state \<Rightarrow> render_state" where
  "exec_init arch st =
     (let st = st\<lparr>st_qemu := ''qemu-system-'' @ arch\<rparr>
      in st\<lparr>st_args :=
            [''-smp'', Itoa (Cores (st_m st)), ''-m'', FormatUint10 (unat (Memory (st_m st)))]\<rparr>)"

definition exec_kvm :: "bool \<Rightarrow> render_state \<Rightarrow> render_state" where
  "exec_kvm kvm st = (if kvm then st\<lparr>st_args := st_args st @ [''-enable-kvm'']\<rparr> else st)"

definition exec_cd :: "render_state \<Rightarrow> render_state" where
  "exec_cd st =
     (if length (cd (st_m st)) > 0
      then (let st = st\<lparr>st_args := st_args st @ [''-cdrom'']\<rparr>
            in st\<lparr>st_args := st_args st @ [cd (st_m st)]\<rparr>)
      else st)"

fun exec_drives :: "Drive list \<Rightarrow> render_state \<Rightarrow> render_state" where
  "exec_drives [] st = st"
| "exec_drives (drive # rest) st =
     (let st = st\<lparr>st_args := st_args st @ [''-drive'']\<rparr>;
          st = st\<lparr>st_args :=
                 st_args st @ [''file='' @ Drive.Path drive @ '',format='' @ Drive.Format drive]\<rparr>
      in exec_drives rest st)"

definition exec_no_ifaces :: "render_state \<Rightarrow> render_state" where
  "exec_no_ifaces st =
     (if length (ifaces (st_m st)) = 0
      then (let st = st\<lparr>st_args := st_args st @ [''-net'']\<rparr>
            in st\<lparr>st_args := st_args st @ [''none'']\<rparr>)
      else st)"

fun exec_ifaces :: "NetDev list \<Rightarrow> render_state \<Rightarrow> render_state" where
  "exec_ifaces [] st = st"
| "exec_ifaces (iface # rest) st =
     (let s = Type iface @ '',id='' @ ID iface;
          s = (if length (IfName iface) > 0 then s @ '',ifname='' @ IfName iface else s);
          st = st\<lparr>st_args := st_args st @ [''-netdev'']\<rparr>;
          st = st\<lparr>st_args := st_args st @ [s]\<rparr>;
          s = ''virtio-net,netdev='' @ ID iface;
          s = (if length (MAC iface) > 0 then s @ '',mac='' @ MAC iface else s);
          st = st\<lparr>st_args := st_args st @ [''-device'']\<rparr>;
          st = st\<lparr>st_args := st_args st @ [s]\<rparr>
      in exec_ifaces rest st)"

definition exec_vnc :: "render_state \<Rightarrow> render_state" where
  "exec_vnc st =
     (if length (vnc (st_m st)) > 0
      then (let st = st\<lparr>st_args := st_args st @ [''-vnc'']\<rparr>
            in st\<lparr>st_args := st_args st @ [vnc (st_m st)]\<rparr>)
      else st)"

definition exec_monitor :: "render_state \<Rightarrow> render_state" where
  "exec_monitor st =
     (if length (monitor (st_m st)) > 0
      then (let st = st\<lparr>st_args := st_args st @ [''-qmp'']\<rparr>
            in st\<lparr>st_args := st_args st @ [''unix:'' @ monitor (st_m st) @ '',server,nowait'']\<rparr>)
      else st)"

definition Start_exec :: "string \<Rightarrow> bool \<Rightarrow> render_state \<Rightarrow> render_state" where
  "Start_exec arch kvm st =
     (let st = exec_init arch st;
          st = exec_kvm kvm st;
          st = exec_cd st;
          st = exec_drives (drives (st_m st)) st;
          st = exec_no_ifaces st;
          st = exec_ifaces (ifaces (st_m st)) st;
          st = exec_vnc st;
          st = exec_monitor st
      in st)"

text \<open>
  The rendering part of a call of \<open>Start\<close> on the descriptor \<open>m\<close>: the locals start
  out empty, and what is left afterwards is the descriptor as the statements left it, the
  binary name and the argument list handed to \<open>exec.Command\<close>.
\<close>

definition Start_render :: "Machine \<Rightarrow> string \<Rightarrow> bool \<Rightarrow> Machine \<times> string \<times> string list" where
  "Start_render m arch kvm =
     (let st = Start_exec arch kvm \<lparr>st_m = m, st_qemu = [], st_args = []\<rparr>
      in (st_m st, st_qemu st, st_args st))"

section \<open>Start: launching\<close>

text \<open>
  What the operating system does with a command is outside machine.go and is a parameter.
  \<open>start_result\<close> is what \<open>cmd.Start()\<close> returns: an error, or the process then found
  in \<open>cmd.Process\<close>. \<open>wait_result\<close> is how far the goroutine has come when the non-blocking \<open>select\<close>
  runs after the sleep: \<open>None\<close> when its \<open>cmd.Wait()\<close> has not returned by then (so
  that no sender waits on the channel), otherwise \<open>Some r\<close> with \<open>r\<close> the value
  \<open>cmd.Wait()\<close> returned (\<open>None\<close> for a nil error).
\<close>

type_synonym process = nat

record os_run =
  start_result :: "go_error + process"
  wait_result :: "go_error option option"

type_synonym os = "string \<Rightarrow> string list \<Rightarrow> os_run"

text \<open>
  The goroutine: the value it sends on \<open>errc\<close>, if it sends one. The channel carries Go
  \<open>error\<close> interface values, which may be nil, hence the inner option.
\<close>

definition background :: "string \<Rightarrow> go_error option \<Rightarrow> go_error option option" where
  "background arch err =
     (case err of
        Some e \<Rightarrow>
          Some (Some (Errorf ([CHR 0x27] @ ''qemu-system-'' @ arch @ [CHR 0x27] @ '': '' @ Error e)))
      | None \<Rightarrow> None)"

text \<open>
  The \<open>select\<close> with a \<open>default\<close> branch: it receives the value of a sender that is
  already waiting on the unbuffered channel and otherwise takes the default branch.
\<close>

definition select_errc :: "string \<Rightarrow> go_error option option \<Rightarrow> go_error option option" where
  "select_errc arch waited =
     (case waited of
        None \<Rightarrow> None
      | Some err \<Rightarrow> background arch err)"

text \<open>
  Lines 135 to 163: the pair \<open>(*os.Process, error)\<close> that \<open>Start\<close> returns, each
  component \<open>None\<close> for nil.
\<close>

definition launch :: "string \<Rightarrow> os_run \<Rightarrow> process option \<times> go_error option" where
  "launch arch run =
     (case start_result run of
        Inl err \<Rightarrow> (None, Some err)
      | Inr proc \<Rightarrow>
          (case select_errc arch (wait_result run) of
             Some (Some vmerr) \<Rightarrow> (None, Some vmerr)
           | Some None \<Rightarrow> (Some proc, None)
           | None \<Rightarrow> (Some proc, None)))"

definition Start ::
  "os \<Rightarrow> Machine \<Rightarrow> string \<Rightarrow> bool \<Rightarrow> Machine \<times> (process option \<times> go_error option)" where
  "Start sys m arch kvm =
     (case Start_render m arch kvm of
        (m', qemu, args) \<Rightarrow> (m', launch arch (sys qemu args)))"

text \<open>
  A caller's use of a descriptor is a sequence of method calls; \<open>run_ops\<close> performs
  them in order.
\<close>

datatype 'a operation =
    OpAddCDRom string
  | OpAddDrive Drive
  | OpAddDriveImage "'a Image_scheme"
  | OpAddNetworkDevice NetDev
  | OpAddVNC string int
  | OpAddMonitorUnix string

fun apply_operation :: "Machine \<Rightarrow> 'a operation \<Rightarrow> Machine" where
  "apply_operation m (OpAddCDRom dev) = AddCDRom m dev"
| "apply_operation m (OpAddDrive d) = AddDrive m d"
| "apply_operation m (OpAddDriveImage img) = AddDriveImage m img"
| "apply_operation m (OpAddNetworkDevice netdev) = AddNetworkDevice m netdev"
| "apply_operation m (OpAddVNC addr port) = AddVNC m addr port"
| "apply_operation m (OpAddMonitorUnix dev) = AddMonitorUnix m dev"

fun run_ops :: "Machine \<Rightarrow> 'a operation list \<Rightarrow> Machine" where
  "run_ops m [] = m"
| "run_ops m (x # xs) = run_ops (apply_operation m x) xs"

section \<open>The rendering as the specification words it\<close>

text \<open>
  One definition per rendering step of the specification (steps 2 to 8), written from its
  words and compared below with \<open>Start_args\<close>, which follows the code.
\<close>

definition spec_sizing :: "Machine \<Rightarrow> string list" where
  "spec_sizing m = [''-smp'', Itoa (Cores m), ''-m'', FormatUint10 (unat (Memory m))]"

definition spec_kvm :: "bool \<Rightarrow> string list" where
  "spec_kvm kvm = (if kvm then [''-enable-kvm''] else [])"

definition spec_cdrom :: "string \<Rightarrow> string list" where
  "spec_cdrom path = (if path = [] then [] else [''-cdrom'', path])"

definition spec_drive_pair :: "Drive \<Rightarrow> string list" where
  "spec_drive_pair d = [''-drive'', ''file='' @ Drive.Path d @ '',format='' @ Drive.Format d]"

definition spec_drives :: "Drive list \<Rightarrow> string list" where
  "spec_drives ds = concat (map spec_drive_pair ds)"

definition spec_backend :: "NetDev \<Rightarrow> string" where
  "spec_backend n =
     Type n @ '',id='' @ ID n @ (if IfName n = [] then [] else '',ifname='' @ IfName n)"

definition spec_device :: "NetDev \<Rightarrow> string" where
  "spec_device n =
     ''virtio-net,netdev='' @ ID n @ (if MAC n = [] then [] else '',mac='' @ MAC n)"

definition spec_iface_pairs :: "NetDev \<Rightarrow> string list" where
  "spec_iface_pairs n = [''-netdev'', spec_backend n, ''-device'', spec_device n]"

definition spec_network :: "NetDev list \<Rightarrow> string list" where
  "spec_network ns = (if ns = [] then [''-net'', ''none''] else concat (map spec_iface_pairs ns))"

definition spec_display :: "string \<Rightarrow> string list" where
  "spec_display endpoint = (if endpoint = [] then [] else [''-vnc'', endpoint])"

definition spec_control :: "string \<Rightarrow> string list" where
  "spec_control path = (if path = [] then [] else [''-qmp'', ''unix:'' @ path @ '',server,nowait''])"

definition spec_render :: "Machine \<Rightarrow> bool \<Rightarrow> string list" where
  "spec_render m kvm =
     spec_sizing m @ spec_kvm kvm @ spec_cdrom (cd m) @ spec_drives (drives m) @
     spec_network (ifaces m) @ spec_display (vnc m) @ spec_control (monitor m)"

section \<open>The loops append what the specification lists\<close>

lemma drives_loop_append: "drives_loop args ds = args @ spec_drives ds"
  by (induction ds arbitrary: args) (simp_all add: spec_drives_def spec_drive_pair_def)

lemma ifaces_loop_append: "ifaces_loop args ns = args @ concat (map spec_iface_pairs ns)"
  by (induction ns arbitrary: args)
    (simp_all add: spec_iface_pairs_def spec_backend_def spec_device_def Let_def)

lemma Start_args_sections: "Start_args m kvm = spec_render m kvm"
  by (simp add: Start_args_def spec_render_def spec_sizing_def spec_kvm_def spec_cdrom_def
      spec_network_def spec_display_def spec_control_def drives_loop_append ifaces_loop_append
      Let_def)

text \<open>
  The statement-by-statement execution: each loop leaves the receiver and \<open>qemu\<close> as
  they are and extends \<open>args\<close> as the loop on the argument list alone does.
\<close>

lemma exec_drives_state:
  "exec_drives ds st = st\<lparr>st_args := drives_loop (st_args st) ds\<rparr>"
  by (induction ds arbitrary: st) (simp_all add: Let_def)

lemma exec_ifaces_state:
  "exec_ifaces ns st = st\<lparr>st_args := ifaces_loop (st_args st) ns\<rparr>"
  by (induction ns arbitrary: st) (simp_all add: Let_def)

lemma Start_exec_state:
  "Start_exec arch kvm st =
     \<lparr>st_m = st_m st, st_qemu = Start_qemu arch, st_args = Start_args (st_m st) kvm\<rparr>"
proof -
  define m where "m = st_m st"
  define q where "q = ''qemu-system-'' @ arch"
  define a1 where "a1 = [''-smp'', Itoa (Cores m), ''-m'', FormatUint10 (unat (Memory m))]"
  define a2 where "a2 = (if kvm then a1 @ [''-enable-kvm''] else a1)"
  define a3 where "a3 = (if length (cd m) > 0 then (a2 @ [''-cdrom'']) @ [cd m] else a2)"
  define a4 where "a4 = drives_loop a3 (drives m)"
  define a5 where "a5 = (if length (ifaces m) = 0 then (a4 @ [''-net'']) @ [''none''] else a4)"
  define a6 where "a6 = ifaces_loop a5 (ifaces m)"
  define a7 where "a7 = (if length (vnc m) > 0 then (a6 @ [''-vnc'']) @ [vnc m] else a6)"
  define a8 where "a8 = (if length (monitor m) > 0
      then (a7 @ [''-qmp'']) @ [''unix:'' @ monitor m @ '',server,nowait''] else a7)"
  have s1: "exec_init arch st = \<lparr>st_m = m, st_qemu = q, st_args = a1\<rparr>"
    by (simp add: exec_init_def m_def q_def a1_def Let_def)
  have s2: "exec_kvm kvm \<lparr>st_m = m, st_qemu = q, st_args = a1\<rparr> =
      \<lparr>st_m = m, st_qemu = q, st_args = a2\<rparr>"
    by (simp add: exec_kvm_def a2_def)
  have s3: "exec_cd \<lparr>st_m = m, st_qemu = q, st_args = a2\<rparr> =
      \<lparr>st_m = m, st_qemu = q, st_args = a3\<rparr>"
    by (simp add: exec_cd_def a3_def Let_def)
  have s4: "exec_drives (drives m) \<lparr>st_m = m, st_qemu = q, st_args = a3\<rparr> =
      \<lparr>st_m = m, st_qemu = q, st_args = a4\<rparr>"
    by (simp add: exec_drives_state a4_def)
  have s5: "exec_no_ifaces \<lparr>st_m = m, st_qemu = q, st_args = a4\<rparr> =
      \<lparr>st_m = m, st_qemu = q, st_args = a5\<rparr>"
    by (simp add: exec_no_ifaces_def a5_def Let_def)
  have s6: "exec_ifaces (ifaces m) \<lparr>st_m = m, st_qemu = q, st_args = a5\<rparr> =
      \<lparr>st_m = m, st_qemu = q, st_args = a6\<rparr>"
    by (simp add: exec_ifaces_state a6_def)
  have s7: "exec_vnc \<lparr>st_m = m, st_qemu = q, st_args = a6\<rparr> =
      \<lparr>st_m = m, st_qemu = q, st_args = a7\<rparr>"
    by (simp add: exec_vnc_def a7_def Let_def)
  have s8: "exec_monitor \<lparr>st_m = m, st_qemu = q, st_args = a7\<rparr> =
      \<lparr>st_m = m, st_qemu = q, st_args = a8\<rparr>"
    by (simp add: exec_monitor_def a8_def Let_def)
  have sel: "st_m \<lparr>st_m = m, st_qemu = q, st_args = a\<rparr> = m" for a
    by simp
  have run: "Start_exec arch kvm st = \<lparr>st_m = m, st_qemu = q, st_args = a8\<rparr>"
    unfolding Start_exec_def
    by (simp only: Let_def s1 s2 s3 s4 s5 s6 s7 s8 sel)
  have args: "a8 = Start_args m kvm"
    unfolding Start_args_def a8_def a7_def a6_def a5_def a4_def a3_def a2_def a1_def
    by (simp only: Let_def)
  from run args show ?thesis
    by (simp add: m_def q_def Start_qemu_def)
qed

lemma Start_render_eq: "Start_render m arch kvm = (m, Start_qemu arch, Start_args m kvm)"
  by (simp add: Start_render_def Start_exec_state Let_def)

text \<open>Evaluating the decimal rendering on numerals.\<close>

lemma FormatUint10_small: "n < 10 \<Longrightarrow> FormatUint10 n = [digit n]"
  by (simp add: FormatUint10.simps)

lemma FormatUint10_large:
  "\<not> n < 10 \<Longrightarrow> FormatUint10 n = FormatUint10 (n div 10) @ [digit (n mod 10)]"
  by (subst FormatUint10.simps) simp

lemma digit_value: "d < 10 \<Longrightarrow> of_char (digit d) - 48 = d"
proof -
  assume "d < 10"
  then have "d \<in> {0, 1, 2, 3, 4, 5, 6, 7, 8, 9}" by auto
  then show ?thesis by (auto simp: digit_def)
qed

lemma parse_decimal_FormatUint10: "parse_decimal (FormatUint10 n) = n"
proof (induction n rule: FormatUint10.induct)
  case (1 n)
  show ?case
  proof (cases "n < 10")
    case True
    then show ?thesis by (simp add: FormatUint10_small parse_decimal_def digit_value)
  next
    case False
    with 1 have "parse_decimal (FormatUint10 (n div 10)) = n div 10" by simp
    with False show ?thesis
      by (simp add: FormatUint10_large parse_decimal_def digit_value)
  qed
qed

lemmas render_eval =
  FormatUint10_small FormatUint10_large digit_def Itoa_def NewMachine_def AddCDRom_def
  AddDrive_def AddDriveImage_def AddNetworkDevice_def AddVNC_def AddMonitorUnix_def
  Start_args_def Start_qemu_def Let_def

lemma run_ops_sizing: "Cores (run_ops m ops) = Cores m \<and> Memory (run_ops m ops) = Memory m"
proof (induction ops arbitrary: m)
  case Nil
  show ?case by simp
next
  case (Cons x xs)
  have "Cores (apply_operation m x) = Cores m \<and> Memory (apply_operation m x) = Memory m"
    by (cases x)
      (simp_all add: AddCDRom_def AddDrive_def AddDriveImage_def AddNetworkDevice_def
        AddVNC_def AddMonitorUnix_def)
  with Cons.IH [of "apply_operation m x"] show ?case by simp
qed

section \<open>Order of the rendered arguments\<close>

text \<open>
  C1. For every descriptor and KVM flag, the argument list built by \<open>Start\<close> is the
  concatenation, in this order, of: the pair \<open>-smp cores\<close> and the pair \<open>-m memory\<close>;
  \<open>-enable-kvm\<close> if requested; the CD-ROM pair if a CD-ROM is set; one
  \<open>-drive file=path,format=format\<close> pair per drive in insertion order; the network flags;
  the display pair if set; the control-socket pair if set. In particular the descriptor
  with 2 cores, 1024 MB, the single drive \<open>/vm.qcow2\<close> of format \<open>qcow2\<close> and nothing
  else, started without KVM, renders exactly
  \<open>-smp 2 -m 1024 -drive file=/vm.qcow2,format=qcow2 -net none\<close>.
\<close>

theorem Start_args_order:
  "Start_args m kvm =
     spec_sizing m @ spec_kvm kvm @ spec_cdrom (cd m) @ spec_drives (drives m) @
     spec_network (ifaces m) @ spec_display (vnc m) @ spec_control (monitor m)
   \<and> Start_args (AddDrive (NewMachine 2 1024) \<lparr>Path = ''/vm.qcow2'', Format = ''qcow2''\<rparr>) False =
     [''-smp'', ''2'', ''-m'', ''1024'', ''-drive'', ''file=/vm.qcow2,format=qcow2'',
      ''-net'', ''none'']"
proof
  show "Start_args m kvm =
     spec_sizing m @ spec_kvm kvm @ spec_cdrom (cd m) @ spec_drives (drives m) @
     spec_network (ifaces m) @ spec_display (vnc m) @ spec_control (monitor m)"
    by (simp only: Start_args_sections spec_render_def)
next
  show "Start_args (AddDrive (NewMachine 2 1024) \<lparr>Path = ''/vm.qcow2'', Format = ''qcow2''\<rparr>) False =
     [''-smp'', ''2'', ''-m'', ''1024'', ''-drive'', ''file=/vm.qcow2,format=qcow2'',
      ''-net'', ''none'']"
    by (simp add: render_eval)
qed

lemmas spec_eval =
  spec_sizing_def spec_kvm_def spec_cdrom_def spec_drives_def spec_drive_pair_def
  spec_backend_def spec_device_def spec_iface_pairs_def spec_network_def spec_display_def
  spec_control_def FormatUint10_small FormatUint10_large digit_def Itoa_def NewMachine_def
  AddCDRom_def AddDrive_def AddDriveImage_def AddNetworkDevice_def AddVNC_def
  AddMonitorUnix_def

theorem Start_args_order_witness:
  "Start_args
     (AddMonitorUnix
       (AddVNC
         (AddNetworkDevice
           (AddDrive (AddCDRom (NewMachine 4 2048) ''/boot.iso'')
             \<lparr>Path = ''/a.img'', Format = ''raw''\<rparr>)
           \<lparr>Type = ''tap'', ID = ''net0'', IfName = ''tap0'', MAC = ''52:54:00:12:34:56''\<rparr>)
         ''127.0.0.1'' 1)
       ''/tmp/qmp.sock'')
     True =
   [''-smp'', ''4'', ''-m'', ''2048'', ''-enable-kvm'', ''-cdrom'', ''/boot.iso'',
    ''-drive'', ''file=/a.img,format=raw'',
    ''-netdev'', ''tap,id=net0,ifname=tap0'',
    ''-device'', ''virtio-net,netdev=net0,mac=52:54:00:12:34:56'',
    ''-vnc'', ''127.0.0.1:1'', ''-qmp'', ''unix:/tmp/qmp.sock,server,nowait'']"
  using Start_args_order
    [of "AddMonitorUnix
       (AddVNC
         (AddNetworkDevice
           (AddDrive (AddCDRom (NewMachine 4 2048) ''/boot.iso'')
             \<lparr>Path = ''/a.img'', Format = ''raw''\<rparr>)
           \<lparr>Type = ''tap'', ID = ''net0'', IfName = ''tap0'', MAC = ''52:54:00:12:34:56''\<rparr>)
         ''127.0.0.1'' 1)
       ''/tmp/qmp.sock''" True, THEN conjunct1]
  by (simp add: spec_eval)

section \<open>Appending drives and interfaces\<close>

text \<open>
  C5. Appending preserves insertion order in the rendering. Whatever \<open>args\<close> holds when
  the drive loop starts, the loop over the drives of a descriptor to which a drive was
  appended yields what the loop over the original drives yields, followed by the new
  drive's \<open>-drive\<close> pair; likewise for the interface loop and an appended interface. For
  drives D1 then D2 attached in that order, the argument list of \<open>Start\<close> carries, after
  the pairs of the drives already present, the pair of D1 and then the pair of D2.
\<close>

theorem AddDrive_render_order:
  "drives_loop args (drives (AddDrive m d)) =
     drives_loop args (drives m) @
     [''-drive'', ''file='' @ Drive.Path d @ '',format='' @ Drive.Format d]
   \<and> ifaces_loop args (ifaces (AddNetworkDevice m n)) =
     ifaces_loop args (ifaces m) @ spec_iface_pairs n
   \<and> Start_args (AddDrive (AddDrive m d1) d2) kvm =
     spec_sizing m @ spec_kvm kvm @ spec_cdrom (cd m) @
     (spec_drives (drives m) @
      [''-drive'', ''file='' @ Drive.Path d1 @ '',format='' @ Drive.Format d1] @
      [''-drive'', ''file='' @ Drive.Path d2 @ '',format='' @ Drive.Format d2]) @
     spec_network (ifaces m) @ spec_display (vnc m) @ spec_control (monitor m)"
proof (intro conjI)
  show "drives_loop args (drives (AddDrive m d)) =
     drives_loop args (drives m) @
     [''-drive'', ''file='' @ Drive.Path d @ '',format='' @ Drive.Format d]"
    by (simp add: drives_loop_append AddDrive_def spec_drives_def spec_drive_pair_def)
next
  show "ifaces_loop args (ifaces (AddNetworkDevice m n)) =
     ifaces_loop args (ifaces m) @ spec_iface_pairs n"
    by (simp add: ifaces_loop_append AddNetworkDevice_def)
next
  show "Start_args (AddDrive (AddDrive m d1) d2) kvm =
     spec_sizing m @ spec_kvm kvm @ spec_cdrom (cd m) @
     (spec_drives (drives m) @
      [''-drive'', ''file='' @ Drive.Path d1 @ '',format='' @ Drive.Format d1] @
      [''-drive'', ''file='' @ Drive.Path d2 @ '',format='' @ Drive.Format d2]) @
     spec_network (ifaces m) @ spec_display (vnc m) @ spec_control (monitor m)"
    by (simp add: Start_args_sections spec_render_def AddDrive_def spec_drives_def
        spec_drive_pair_def spec_sizing_def)
qed

theorem AddDrive_render_order_witness:
  "Start_args
     (AddDrive (AddDrive (NewMachine 1 512) \<lparr>Path = ''/d1.img'', Format = ''raw''\<rparr>)
       \<lparr>Path = ''/d2.qcow2'', Format = ''qcow2''\<rparr>) False =
   [''-smp'', ''1'', ''-m'', ''512'', ''-drive'', ''file=/d1.img,format=raw'',
    ''-drive'', ''file=/d2.qcow2,format=qcow2'', ''-net'', ''none'']"
  using AddDrive_render_order
    [of _ "NewMachine 1 512" _ _ "\<lparr>Path = ''/d1.img'', Format = ''raw''\<rparr>"
      "\<lparr>Path = ''/d2.qcow2'', Format = ''qcow2''\<rparr>" False, THEN conjunct2, THEN conjunct2]
  by (simp add: spec_eval)

section \<open>Attaching a drive from an image\<close>

text \<open>
  C6. For every descriptor and every image descriptor \<open>img\<close>, \<open>AddDriveImage\<close> with
  \<open>img\<close> leaves the descriptor in the same state as \<open>AddDrive\<close> with the drive whose
  path and format are those of \<open>img\<close>.
\<close>

theorem AddDriveImage_is_AddDrive:
  "AddDriveImage m img = AddDrive m \<lparr>Path = Image.Path img, Format = Image.Format img\<rparr>"
  by (simp add: AddDriveImage_def AddDrive_def)

theorem AddDriveImage_is_AddDrive_witness:
  "drives
     (AddDriveImage (NewMachine 2 1024)
       \<lparr>Image.Path = ''/vm.qcow2'', Image.Format = ''qcow2''\<rparr>) =
     [\<lparr>Path = ''/vm.qcow2'', Format = ''qcow2''\<rparr>]"
  using AddDriveImage_is_AddDrive
    [of "NewMachine 2 1024" "\<lparr>Image.Path = ''/vm.qcow2'', Image.Format = ''qcow2''\<rparr>"]
  by (simp add: AddDrive_def NewMachine_def)

section \<open>The network flags\<close>

lemma spec_iface_pairs_no_net: "''-net'' \<notin> set (concat (map spec_iface_pairs ns))"
proof -
  have backend: "spec_backend n \<noteq> ''-net''" for n
  proof
    assume eq: "spec_backend n = ''-net''"
    have "CHR '','' \<in> set (spec_backend n)"
      by (simp add: spec_backend_def)
    with eq show False by simp
  qed
  have device: "spec_device n \<noteq> ''-net''" for n
    by (simp add: spec_device_def)
  have pair: "''-net'' \<notin> set (spec_iface_pairs n)" for n
    using backend [of n] device [of n] by (auto simp: spec_iface_pairs_def)
  show ?thesis
    by (induction ns) (simp_all add: pair)
qed

text \<open>
  C2. The part of the argument list that the network step of \<open>Start\<close> contributes lies
  between the drive pairs and the display pair. For a descriptor with no interface it is
  exactly the one pair \<open>-net none\<close>, so it holds no \<open>-netdev\<close> and no \<open>-device\<close>
  pair. For a descriptor with at least one interface it holds no \<open>-net\<close> flag and
  consists, for each interface in insertion order, of one \<open>-netdev kind,id=id\<close> pair
  followed by one \<open>-device virtio-net,netdev=id\<close> pair; the backend value ends in
  \<open>,ifname=name\<close> exactly when the interface name is set (non-empty), and the device
  value ends in \<open>,mac=addr\<close> exactly when the MAC address is set.
\<close>

theorem Start_args_network:
  "(ifaces m = [] \<longrightarrow>
      Start_args m kvm =
        (spec_sizing m @ spec_kvm kvm @ spec_cdrom (cd m) @ spec_drives (drives m)) @
        [''-net'', ''none''] @
        (spec_display (vnc m) @ spec_control (monitor m)))
   \<and> (ifaces m \<noteq> [] \<longrightarrow>
      Start_args m kvm =
        (spec_sizing m @ spec_kvm kvm @ spec_cdrom (cd m) @ spec_drives (drives m)) @
        concat (map (\<lambda>n.
          [''-netdev'',
           Type n @ '',id='' @ ID n @ (if IfName n = [] then [] else '',ifname='' @ IfName n),
           ''-device'',
           ''virtio-net,netdev='' @ ID n @ (if MAC n = [] then [] else '',mac='' @ MAC n)])
          (ifaces m)) @
        (spec_display (vnc m) @ spec_control (monitor m))
      \<and> ''-net'' \<notin> set (concat (map (\<lambda>n.
          [''-netdev'',
           Type n @ '',id='' @ ID n @ (if IfName n = [] then [] else '',ifname='' @ IfName n),
           ''-device'',
           ''virtio-net,netdev='' @ ID n @ (if MAC n = [] then [] else '',mac='' @ MAC n)])
          (ifaces m))))"
proof -
  have pairs: "spec_iface_pairs = (\<lambda>n.
      [''-netdev'',
       Type n @ '',id='' @ ID n @ (if IfName n = [] then [] else '',ifname='' @ IfName n),
       ''-device'',
       ''virtio-net,netdev='' @ ID n @ (if MAC n = [] then [] else '',mac='' @ MAC n)])"
    by (rule ext) (simp add: spec_iface_pairs_def spec_backend_def spec_device_def)
  have empty: "ifaces m = [] \<longrightarrow>
      Start_args m kvm =
        (spec_sizing m @ spec_kvm kvm @ spec_cdrom (cd m) @ spec_drives (drives m)) @
        [''-net'', ''none''] @
        (spec_display (vnc m) @ spec_control (monitor m))"
    by (simp add: Start_args_sections spec_render_def spec_network_def)
  have some: "ifaces m \<noteq> [] \<longrightarrow>
      Start_args m kvm =
        (spec_sizing m @ spec_kvm kvm @ spec_cdrom (cd m) @ spec_drives (drives m)) @
        concat (map spec_iface_pairs (ifaces m)) @
        (spec_display (vnc m) @ spec_control (monitor m))"
    by (simp add: Start_args_sections spec_render_def spec_network_def)
  have none: "''-net'' \<notin> set (concat (map spec_iface_pairs (ifaces m)))"
    by (rule spec_iface_pairs_no_net)
  from empty some none show ?thesis
    unfolding pairs by blast
qed

theorem Start_args_network_witness:
  "Start_args (NewMachine 2 1024) False = [''-smp'', ''2'', ''-m'', ''1024'', ''-net'', ''none'']
   \<and> Start_args
       (AddNetworkDevice
         (AddNetworkDevice (NewMachine 2 1024)
           \<lparr>Type = ''user'', ID = ''net0'', IfName = [], MAC = []\<rparr>)
         \<lparr>Type = ''tap'', ID = ''net1'', IfName = ''tap0'', MAC = ''52:54:00:00:00:01''\<rparr>)
       True =
     [''-smp'', ''2'', ''-m'', ''1024'', ''-enable-kvm'',
      ''-netdev'', ''user,id=net0'', ''-device'', ''virtio-net,netdev=net0'',
      ''-netdev'', ''tap,id=net1,ifname=tap0'',
      ''-device'', ''virtio-net,netdev=net1,mac=52:54:00:00:00:01'']"
  using Start_args_network [of "NewMachine 2 1024" False]
    Start_args_network
      [of "AddNetworkDevice
         (AddNetworkDevice (NewMachine 2 1024)
           \<lparr>Type = ''user'', ID = ''net0'', IfName = [], MAC = []\<rparr>)
         \<lparr>Type = ''tap'', ID = ''net1'', IfName = ''tap0'', MAC = ''52:54:00:00:00:01''\<rparr>" True]
  by (simp add: spec_eval)

section \<open>What Start returns\<close>

text \<open>
  C3. Whatever the operating system does with the command, \<open>Start\<close> returns a process
  handle exactly when it returns no error. When \<open>cmd.Start()\<close> fails with \<open>e\<close>, the
  result is no handle and \<open>e\<close> itself. When the process was started and \<open>cmd.Wait()\<close>
  has returned an error \<open>w\<close> by the time of the non-blocking receive, the result is no
  handle and an error whose message is \<open>'qemu-system-arch': \<close> followed by the message of
  \<open>w\<close>, for the \<open>arch\<close> given to \<open>Start\<close>. When the process was started and no such
  error is seen, the result is the handle and no error.
\<close>

theorem Start_handle_xor_error:
  "(fst (snd (Start sys m arch kvm)) \<noteq> None) = (snd (snd (Start sys m arch kvm)) = None)
   \<and> (start_result (sys (Start_qemu arch) (Start_args m kvm)) = Inl e \<longrightarrow>
        snd (Start sys m arch kvm) = (None, Some e))
   \<and> (start_result (sys (Start_qemu arch) (Start_args m kvm)) = Inr p \<and>
      wait_result (sys (Start_qemu arch) (Start_args m kvm)) = Some (Some w) \<longrightarrow>
        snd (Start sys m arch kvm) =
          (None,
           Some (Errorf ([CHR 0x27] @ ''qemu-system-'' @ arch @ [CHR 0x27] @ '': '' @ Error w))))
   \<and> (start_result (sys (Start_qemu arch) (Start_args m kvm)) = Inr p \<and>
      (wait_result (sys (Start_qemu arch) (Start_args m kvm)) = None \<or>
       wait_result (sys (Start_qemu arch) (Start_args m kvm)) = Some None) \<longrightarrow>
        snd (Start sys m arch kvm) = (Some p, None))"
proof -
  let ?run = "sys (Start_qemu arch) (Start_args m kvm)"
  have unfold: "snd (Start sys m arch kvm) = launch arch ?run"
    by (simp add: Start_def Start_render_eq)
  have xor: "(fst (launch arch ?run) \<noteq> None) = (snd (launch arch ?run) = None)"
    by (simp add: launch_def select_errc_def background_def split: sum.splits option.splits)
  have spawn: "start_result ?run = Inl e \<longrightarrow> launch arch ?run = (None, Some e)"
    by (simp add: launch_def)
  have early: "start_result ?run = Inr p \<and> wait_result ?run = Some (Some w) \<longrightarrow>
      launch arch ?run =
        (None,
         Some (Errorf ([CHR 0x27] @ ''qemu-system-'' @ arch @ [CHR 0x27] @ '': '' @ Error w)))"
    by (simp add: launch_def select_errc_def background_def)
  have alive: "start_result ?run = Inr p \<and>
      (wait_result ?run = None \<or> wait_result ?run = Some None) \<longrightarrow>
      launch arch ?run = (Some p, None)"
    by (auto simp: launch_def select_errc_def background_def)
  from xor spawn early alive show ?thesis
    unfolding unfold by blast
qed

theorem Start_handle_xor_error_witness:
  "snd (Start (\<lambda>qemu args. \<lparr>start_result = Inl (OsError ''exec: not found''), wait_result = None\<rparr>)
        (NewMachine 2 1024) ''x86_64'' False) =
     (None, Some (OsError ''exec: not found''))
   \<and> snd (Start
        (\<lambda>qemu args. \<lparr>start_result = Inr 4242, wait_result = Some (Some (OsError ''exit status 1''))\<rparr>)
        (NewMachine 2 1024) ''x86_64'' False) =
     (None, Some (Errorf ([CHR 0x27] @ ''qemu-system-x86_64'' @ [CHR 0x27] @ '': exit status 1'')))
   \<and> snd (Start (\<lambda>qemu args. \<lparr>start_result = Inr 4242, wait_result = None\<rparr>)
        (NewMachine 2 1024) ''x86_64'' False) =
     (Some 4242, None)"
  using
    Start_handle_xor_error
      [of "\<lambda>qemu args. \<lparr>start_result = Inl (OsError ''exec: not found''), wait_result = None\<rparr>"
        "NewMachine 2 1024" "''x86_64''" False "OsError ''exec: not found''"]
    Start_handle_xor_error
      [of "\<lambda>qemu args. \<lparr>start_result = Inr 4242, wait_result = Some (Some (OsError ''exit status 1''))\<rparr>"
        "NewMachine 2 1024" "''x86_64''" False _ 4242 "OsError ''exit status 1''"]
    Start_handle_xor_error
      [of "\<lambda>qemu args. \<lparr>start_result = Inr 4242, wait_result = None\<rparr>"
        "NewMachine 2 1024" "''x86_64''" False _ 4242]
  by simp

section \<open>Setting a field twice\<close>

text \<open>
  C4, as stated, fails when the last value is the empty string: \<open>Start\<close> emits the
  CD-ROM pair only under \<open>len(m.cd) > 0\<close> (and the control-socket pair only under
  \<open>len(m.monitor) > 0\<close>), so after \<open>AddCDRom\<close> with \<open>/a.iso\<close> and then with the empty
  string the rendering holds no \<open>-cdrom\<close> flag at all, rather than one pair for the last
  value.
\<close>

theorem AddCDRom_twice_counterexample:
  "Start_args (AddCDRom (AddCDRom (NewMachine 2 1024) ''/a.iso'') []) False =
     [''-smp'', ''2'', ''-m'', ''1024'', ''-net'', ''none'']
   \<and> ''-cdrom'' \<notin> set (Start_args (AddCDRom (AddCDRom (NewMachine 2 1024) ''/a.iso'') []) False)"
  by (simp add: render_eval)

text \<open>
  C4, amended. Setting the CD-ROM image, the display endpoint or the control-socket path
  twice, with values v1 then v2, leaves the descriptor in the state reached by the single
  call with v2, so nothing derived from v1 is rendered. The rendering then holds, at the
  place of that field, the flag pair for v2 exactly once when v2 is non-empty, which the
  display endpoint \<open>addr:port\<close> always is; when v2 is the empty string the CD-ROM image
  or control-socket path counts as not set and no pair is emitted for it.
\<close>

theorem set_twice_last_wins:
  "AddCDRom (AddCDRom m v1) v2 = AddCDRom m v2
   \<and> AddVNC (AddVNC m a1 p1) a2 p2 = AddVNC m a2 p2
   \<and> AddMonitorUnix (AddMonitorUnix m v1) v2 = AddMonitorUnix m v2
   \<and> Start_args (AddCDRom (AddCDRom m v1) v2) kvm =
       spec_sizing m @ spec_kvm kvm @ (if v2 = [] then [] else [''-cdrom'', v2]) @
       spec_drives (drives m) @ spec_network (ifaces m) @ spec_display (vnc m) @
       spec_control (monitor m)
   \<and> Start_args (AddVNC (AddVNC m a1 p1) a2 p2) kvm =
       spec_sizing m @ spec_kvm kvm @ spec_cdrom (cd m) @ spec_drives (drives m) @
       spec_network (ifaces m) @ [''-vnc'', a2 @ '':'' @ Itoa p2] @ spec_control (monitor m)
   \<and> Start_args (AddMonitorUnix (AddMonitorUnix m v1) v2) kvm =
       spec_sizing m @ spec_kvm kvm @ spec_cdrom (cd m) @ spec_drives (drives m) @
       spec_network (ifaces m) @ spec_display (vnc m) @
       (if v2 = [] then [] else [''-qmp'', ''unix:'' @ v2 @ '',server,nowait''])"
proof (intro conjI)
  show "AddCDRom (AddCDRom m v1) v2 = AddCDRom m v2"
    by (simp add: AddCDRom_def)
next
  show "AddVNC (AddVNC m a1 p1) a2 p2 = AddVNC m a2 p2"
    by (simp add: AddVNC_def)
next
  show "AddMonitorUnix (AddMonitorUnix m v1) v2 = AddMonitorUnix m v2"
    by (simp add: AddMonitorUnix_def)
next
  show "Start_args (AddCDRom (AddCDRom m v1) v2) kvm =
       spec_sizing m @ spec_kvm kvm @ (if v2 = [] then [] else [''-cdrom'', v2]) @
       spec_drives (drives m) @ spec_network (ifaces m) @ spec_display (vnc m) @
       spec_control (monitor m)"
    by (simp add: Start_args_sections spec_render_def AddCDRom_def spec_cdrom_def
        spec_sizing_def)
next
  show "Start_args (AddVNC (AddVNC m a1 p1) a2 p2) kvm =
       spec_sizing m @ spec_kvm kvm @ spec_cdrom (cd m) @ spec_drives (drives m) @
       spec_network (ifaces m) @ [''-vnc'', a2 @ '':'' @ Itoa p2] @ spec_control (monitor m)"
    by (simp add: Start_args_sections spec_render_def AddVNC_def spec_display_def
        spec_sizing_def)
next
  show "Start_args (AddMonitorUnix (AddMonitorUnix m v1) v2) kvm =
       spec_sizing m @ spec_kvm kvm @ spec_cdrom (cd m) @ spec_drives (drives m) @
       spec_network (ifaces m) @ spec_display (vnc m) @
       (if v2 = [] then [] else [''-qmp'', ''unix:'' @ v2 @ '',server,nowait''])"
    by (simp add: Start_args_sections spec_render_def AddMonitorUnix_def spec_control_def
        spec_sizing_def)
qed

theorem set_twice_last_wins_witness:
  "Start_args (AddCDRom (AddCDRom (NewMachine 2 1024) ''/a.iso'') ''/b.iso'') False =
     [''-smp'', ''2'', ''-m'', ''1024'', ''-cdrom'', ''/b.iso'', ''-net'', ''none'']
   \<and> Start_args (AddVNC (AddVNC (NewMachine 2 1024) ''127.0.0.1'' 1) ''0.0.0.0'' 5900) False =
     [''-smp'', ''2'', ''-m'', ''1024'', ''-net'', ''none'', ''-vnc'', ''0.0.0.0:5900'']
   \<and> Start_args (AddMonitorUnix (AddMonitorUnix (NewMachine 2 1024) ''/a.sock'') ''/b.sock'')
       False =
     [''-smp'', ''2'', ''-m'', ''1024'', ''-net'', ''none'',
      ''-qmp'', ''unix:/b.sock,server,nowait'']"
  using
    set_twice_last_wins
      [of "NewMachine 2 1024" "''/a.iso''" "''/b.iso''" "''127.0.0.1''" 1 "''0.0.0.0''" 5900 False]
    set_twice_last_wins
      [of "NewMachine 2 1024" "''/a.sock''" "''/b.sock''" "''127.0.0.1''" 1 "''0.0.0.0''" 5900 False]
  by (simp add: spec_eval)

section \<open>No validation of the descriptor\<close>

text \<open>
  C7. \<open>Start\<close> validates nothing. For every descriptor, whatever its cores, memory and
  interface ids: the argument list starts with \<open>-smp\<close>, the decimal rendering of the
  cores, \<open>-m\<close> and the decimal rendering of the memory; every attached interface has its
  \<open>-netdev\<close> and \<open>-device\<close> pairs in the list with its id copied as it is; the command
  is handed to the operating system, and if that starts the process and no early exit is
  seen, \<open>Start\<close> returns the handle; and any error \<open>Start\<close> returns is the one
  \<open>cmd.Start()\<close> gave or the wrapped one of \<open>cmd.Wait()\<close>, never one about the
  descriptor.
\<close>

theorem Start_no_validation:
  "take 4 (Start_args m kvm) = [''-smp'', Itoa (Cores m), ''-m'', FormatUint10 (unat (Memory m))]
   \<and> (\<forall>n \<in> set (ifaces m). \<exists>before after.
        Start_args m kvm =
          before @
          [''-netdev'',
           Type n @ '',id='' @ ID n @ (if IfName n = [] then [] else '',ifname='' @ IfName n),
           ''-device'',
           ''virtio-net,netdev='' @ ID n @ (if MAC n = [] then [] else '',mac='' @ MAC n)] @
          after)
   \<and> (start_result (sys (Start_qemu arch) (Start_args m kvm)) = Inr p \<and>
      wait_result (sys (Start_qemu arch) (Start_args m kvm)) = None \<longrightarrow>
        snd (Start sys m arch kvm) = (Some p, None))
   \<and> (snd (snd (Start sys m arch kvm)) = Some e \<longrightarrow>
        start_result (sys (Start_qemu arch) (Start_args m kvm)) = Inl e \<or>
        (\<exists>w. wait_result (sys (Start_qemu arch) (Start_args m kvm)) = Some (Some w) \<and>
          e = Errorf ([CHR 0x27] @ ''qemu-system-'' @ arch @ [CHR 0x27] @ '': '' @ Error w)))"
proof (intro conjI)
  show "take 4 (Start_args m kvm) =
      [''-smp'', Itoa (Cores m), ''-m'', FormatUint10 (unat (Memory m))]"
    by (simp add: Start_args_sections spec_render_def spec_sizing_def)
next
  show "\<forall>n \<in> set (ifaces m). \<exists>before after.
        Start_args m kvm =
          before @
          [''-netdev'',
           Type n @ '',id='' @ ID n @ (if IfName n = [] then [] else '',ifname='' @ IfName n),
           ''-device'',
           ''virtio-net,netdev='' @ ID n @ (if MAC n = [] then [] else '',mac='' @ MAC n)] @
          after"
  proof
    fix n
    assume "n \<in> set (ifaces m)"
    then obtain xs ys where split: "ifaces m = xs @ n # ys"
      by (auto simp: in_set_conv_decomp)
    let ?pre = "spec_sizing m @ spec_kvm kvm @ spec_cdrom (cd m) @ spec_drives (drives m) @
      concat (map spec_iface_pairs xs)"
    let ?post = "concat (map spec_iface_pairs ys) @ spec_display (vnc m) @
      spec_control (monitor m)"
    have "Start_args m kvm = ?pre @ spec_iface_pairs n @ ?post"
      by (simp add: Start_args_sections spec_render_def spec_network_def split)
    then have "Start_args m kvm =
          ?pre @
          [''-netdev'',
           Type n @ '',id='' @ ID n @ (if IfName n = [] then [] else '',ifname='' @ IfName n),
           ''-device'',
           ''virtio-net,netdev='' @ ID n @ (if MAC n = [] then [] else '',mac='' @ MAC n)] @
          ?post"
      by (simp only: spec_iface_pairs_def spec_backend_def spec_device_def)
    then show "\<exists>before after.
        Start_args m kvm =
          before @
          [''-netdev'',
           Type n @ '',id='' @ ID n @ (if IfName n = [] then [] else '',ifname='' @ IfName n),
           ''-device'',
           ''virtio-net,netdev='' @ ID n @ (if MAC n = [] then [] else '',mac='' @ MAC n)] @
          after"
      by blast
  qed
next
  show "start_result (sys (Start_qemu arch) (Start_args m kvm)) = Inr p \<and>
      wait_result (sys (Start_qemu arch) (Start_args m kvm)) = None \<longrightarrow>
        snd (Start sys m arch kvm) = (Some p, None)"
    by (simp add: Start_def Start_render_eq launch_def select_errc_def)
next
  show "snd (snd (Start sys m arch kvm)) = Some e \<longrightarrow>
        start_result (sys (Start_qemu arch) (Start_args m kvm)) = Inl e \<or>
        (\<exists>w. wait_result (sys (Start_qemu arch) (Start_args m kvm)) = Some (Some w) \<and>
          e = Errorf ([CHR 0x27] @ ''qemu-system-'' @ arch @ [CHR 0x27] @ '': '' @ Error w))"
    by (auto simp: Start_def Start_render_eq launch_def select_errc_def background_def
        split: sum.splits option.splits)
qed

theorem Start_no_validation_witness:
  "Start_args
     (AddNetworkDevice
       (AddNetworkDevice (NewMachine (- 3) 0)
         \<lparr>Type = ''user'', ID = ''dup'', IfName = [], MAC = []\<rparr>)
       \<lparr>Type = ''user'', ID = ''dup'', IfName = [], MAC = []\<rparr>)
     False =
   [''-smp'', ''-3'', ''-m'', ''0'',
    ''-netdev'', ''user,id=dup'', ''-device'', ''virtio-net,netdev=dup'',
    ''-netdev'', ''user,id=dup'', ''-device'', ''virtio-net,netdev=dup'']
   \<and> take 4
       (Start_args
         (AddNetworkDevice
           (AddNetworkDevice (NewMachine (- 3) 0)
             \<lparr>Type = ''user'', ID = ''dup'', IfName = [], MAC = []\<rparr>)
           \<lparr>Type = ''user'', ID = ''dup'', IfName = [], MAC = []\<rparr>)
         False) =
     [''-smp'', ''-3'', ''-m'', ''0'']
   \<and> snd (Start (\<lambda>qemu args. \<lparr>start_result = Inr 77, wait_result = None\<rparr>)
       (AddNetworkDevice
         (AddNetworkDevice (NewMachine (- 3) 0)
           \<lparr>Type = ''user'', ID = ''dup'', IfName = [], MAC = []\<rparr>)
         \<lparr>Type = ''user'', ID = ''dup'', IfName = [], MAC = []\<rparr>)
       ''x86_64'' False) =
     (Some 77, None)"
proof -
  let ?m = "AddNetworkDevice
       (AddNetworkDevice (NewMachine (- 3) 0)
         \<lparr>Type = ''user'', ID = ''dup'', IfName = [], MAC = []\<rparr>)
       \<lparr>Type = ''user'', ID = ''dup'', IfName = [], MAC = []\<rparr>"
  let ?sys = "\<lambda>qemu args. \<lparr>start_result = Inr (77 :: nat), wait_result = None\<rparr>"
  note inst = Start_no_validation [of ?m False ?sys "''x86_64''" 77]
  have args: "Start_args ?m False =
     [''-smp'', ''-3'', ''-m'', ''0'',
      ''-netdev'', ''user,id=dup'', ''-device'', ''virtio-net,netdev=dup'',
      ''-netdev'', ''user,id=dup'', ''-device'', ''virtio-net,netdev=dup'']"
    by (simp add: render_eval)
  have sizing: "take 4 (Start_args ?m False) = [''-smp'', ''-3'', ''-m'', ''0'']"
    using inst [THEN conjunct1] by (simp add: spec_eval)
  have handle: "snd (Start ?sys ?m ''x86_64'' False) = (Some 77, None)"
    using inst [THEN conjunct2, THEN conjunct2, THEN conjunct1] by simp
  from args sizing handle show ?thesis by blast
qed

section \<open>Rendering leaves the descriptor alone\<close>

text \<open>
  C8. Rendering is a function of the descriptor, the architecture string and the KVM flag,
  and does not modify the descriptor. On the statement-by-statement execution of lines 81
  to 129: the receiver after the execution is the receiver before it, whatever the state
  it starts in; two executions that start with the same receiver (same architecture, same
  KVM flag) end with the same binary name and the same argument list, whatever the locals
  held before; and executing the lines a second time on the state the first execution left
  gives that state again. Hence for a call of \<open>Start\<close>: the descriptor after rendering is
  the one before, rendering a second time from there gives the same binary name and the
  same argument list, the binary name is \<open>qemu-system-\<close> followed by the architecture,
  and all of \<open>Start\<close>, whatever the operating system does with the command, leaves the
  descriptor as it was.
\<close>

theorem Start_render_pure:
  "st_m (Start_exec arch kvm st) = st_m st
   \<and> (st_m st' = st_m st \<longrightarrow>
        st_qemu (Start_exec arch kvm st') = st_qemu (Start_exec arch kvm st) \<and>
        st_args (Start_exec arch kvm st') = st_args (Start_exec arch kvm st))
   \<and> Start_exec arch kvm (Start_exec arch kvm st) = Start_exec arch kvm st
   \<and> fst (Start_render m arch kvm) = m
   \<and> (case Start_render m arch kvm of
        (m1, qemu1, args1) \<Rightarrow>
          (case Start_render m1 arch kvm of
             (m2, qemu2, args2) \<Rightarrow> m2 = m \<and> qemu2 = qemu1 \<and> args2 = args1))
   \<and> fst (snd (Start_render m arch kvm)) = ''qemu-system-'' @ arch
   \<and> fst (Start sys m arch kvm) = m"
proof (intro conjI)
  show "st_m (Start_exec arch kvm st) = st_m st"
    by (simp add: Start_exec_state)
next
  show "st_m st' = st_m st \<longrightarrow>
        st_qemu (Start_exec arch kvm st') = st_qemu (Start_exec arch kvm st) \<and>
        st_args (Start_exec arch kvm st') = st_args (Start_exec arch kvm st)"
    by (simp add: Start_exec_state)
next
  show "Start_exec arch kvm (Start_exec arch kvm st) = Start_exec arch kvm st"
    by (simp add: Start_exec_state)
next
  show "fst (Start_render m arch kvm) = m"
    by (simp add: Start_render_eq)
next
  show "case Start_render m arch kvm of
        (m1, qemu1, args1) \<Rightarrow>
          (case Start_render m1 arch kvm of
             (m2, qemu2, args2) \<Rightarrow> m2 = m \<and> qemu2 = qemu1 \<and> args2 = args1)"
    by (simp add: Start_render_eq)
next
  show "fst (snd (Start_render m arch kvm)) = ''qemu-system-'' @ arch"
    by (simp add: Start_render_eq Start_qemu_def)
next
  show "fst (Start sys m arch kvm) = m"
    by (simp add: Start_def Start_render_eq)
qed

theorem Start_render_pure_witness:
  "Start_render (AddCDRom (NewMachine 2 1024) ''/boot.iso'') ''x86_64'' True =
     (AddCDRom (NewMachine 2 1024) ''/boot.iso'', ''qemu-system-x86_64'',
      [''-smp'', ''2'', ''-m'', ''1024'', ''-enable-kvm'', ''-cdrom'', ''/boot.iso'',
       ''-net'', ''none''])
   \<and> fst (Start_render
       (fst (Start_render (AddCDRom (NewMachine 2 1024) ''/boot.iso'') ''x86_64'' True))
       ''x86_64'' True) =
     AddCDRom (NewMachine 2 1024) ''/boot.iso''
   \<and> st_args
       (Start_exec ''x86_64'' True
         \<lparr>st_m = AddCDRom (NewMachine 2 1024) ''/boot.iso'', st_qemu = ''left over'',
          st_args = [''-old'', ''-stuff'']\<rparr>) =
     st_args
       (Start_exec ''x86_64'' True
         \<lparr>st_m = AddCDRom (NewMachine 2 1024) ''/boot.iso'', st_qemu = [], st_args = []\<rparr>)
   \<and> st_m
       (Start_exec ''x86_64'' True
         \<lparr>st_m = AddCDRom (NewMachine 2 1024) ''/boot.iso'', st_qemu = ''left over'',
          st_args = [''-old'', ''-stuff'']\<rparr>) =
     AddCDRom (NewMachine 2 1024) ''/boot.iso''"
proof -
  let ?m = "AddCDRom (NewMachine 2 1024) ''/boot.iso''"
  let ?st = "\<lparr>st_m = ?m, st_qemu = [], st_args = []\<rparr>"
  let ?st' = "\<lparr>st_m = ?m, st_qemu = ''left over'', st_args = [''-old'', ''-stuff'']\<rparr>"
  note inst = Start_render_pure [of "''x86_64''" True ?st' ?st ?m]
  have first: "fst (Start_render ?m ''x86_64'' True) = ?m"
    using inst by blast
  have out: "snd (Start_render ?m ''x86_64'' True) =
      (''qemu-system-x86_64'',
       [''-smp'', ''2'', ''-m'', ''1024'', ''-enable-kvm'', ''-cdrom'', ''/boot.iso'',
        ''-net'', ''none''])"
    by (simp add: Start_render_eq render_eval)
  from first out have whole: "Start_render ?m ''x86_64'' True =
      (?m, ''qemu-system-x86_64'',
       [''-smp'', ''2'', ''-m'', ''1024'', ''-enable-kvm'', ''-cdrom'', ''/boot.iso'',
        ''-net'', ''none''])"
    by (simp add: prod_eq_iff)
  from first whole have twice: "fst (Start_render (fst (Start_render ?m ''x86_64'' True))
      ''x86_64'' True) = ?m"
    by simp
  have same: "st_args (Start_exec ''x86_64'' True ?st') = st_args (Start_exec ''x86_64'' True ?st)"
  proof -
    have "st_m ?st = st_m ?st'" by simp
    with inst show ?thesis by (simp only: simp_thms)
  qed
  have kept: "st_m (Start_exec ''x86_64'' True ?st') = ?m"
    using inst [THEN conjunct1] by simp
  from whole twice same kept show ?thesis by blast
qed

section \<open>Each operation changes its own field only\<close>

text \<open>
  C10. Each mutation operation changes the field it is for and no other: \<open>AddCDRom\<close>
  sets the CD-ROM path; \<open>AddDrive\<close> and \<open>AddDriveImage\<close> append one drive to the drive
  sequence; \<open>AddNetworkDevice\<close> appends one interface to the interface sequence;
  \<open>AddVNC\<close> sets the display endpoint to \<open>addr:port\<close>; \<open>AddMonitorUnix\<close> sets the
  control-socket path; every other field keeps its value. So after any sequence of these
  operations on a descriptor made by \<open>NewMachine\<close>, the cores and the memory are still
  the ones given at construction.
\<close>

theorem operations_frame:
  "(Cores (AddCDRom m dev) = Cores m \<and>
      Memory (AddCDRom m dev) = Memory m \<and>
      cd (AddCDRom m dev) = dev \<and>
      vnc (AddCDRom m dev) = vnc m \<and>
      monitor (AddCDRom m dev) = monitor m \<and>
      drives (AddCDRom m dev) = drives m \<and>
      ifaces (AddCDRom m dev) = ifaces m) \<and>
   (Cores (AddDrive m d) = Cores m \<and>
      Memory (AddDrive m d) = Memory m \<and>
      cd (AddDrive m d) = cd m \<and>
      vnc (AddDrive m d) = vnc m \<and>
      monitor (AddDrive m d) = monitor m \<and>
      drives (AddDrive m d) = drives m @ [d] \<and>
      ifaces (AddDrive m d) = ifaces m) \<and>
   (Cores (AddDriveImage m img) = Cores m \<and>
      Memory (AddDriveImage m img) = Memory m \<and>
      cd (AddDriveImage m img) = cd m \<and>
      vnc (AddDriveImage m img) = vnc m \<and>
      monitor (AddDriveImage m img) = monitor m \<and>
      drives (AddDriveImage m img) = drives m @ [\<lparr>Path = Image.Path img, Format = Image.Format img\<rparr>] \<and>
      ifaces (AddDriveImage m img) = ifaces m) \<and>
   (Cores (AddNetworkDevice m netdev) = Cores m \<and>
      Memory (AddNetworkDevice m netdev) = Memory m \<and>
      cd (AddNetworkDevice m netdev) = cd m \<and>
      vnc (AddNetworkDevice m netdev) = vnc m \<and>
      monitor (AddNetworkDevice m netdev) = monitor m \<and>
      drives (AddNetworkDevice m netdev) = drives m \<and>
      ifaces (AddNetworkDevice m netdev) = ifaces m @ [netdev]) \<and>
   (Cores (AddVNC m addr port) = Cores m \<and>
      Memory (AddVNC m addr port) = Memory m \<and>
      cd (AddVNC m addr port) = cd m \<and>
      vnc (AddVNC m addr port) = addr @ '':'' @ Itoa port \<and>
      monitor (AddVNC m addr port) = monitor m \<and>
      drives (AddVNC m addr port) = drives m \<and>
      ifaces (AddVNC m addr port) = ifaces m) \<and>
   (Cores (AddMonitorUnix m dev') = Cores m \<and>
      Memory (AddMonitorUnix m dev') = Memory m \<and>
      cd (AddMonitorUnix m dev') = cd m \<and>
      vnc (AddMonitorUnix m dev') = vnc m \<and>
      monitor (AddMonitorUnix m dev') = dev' \<and>
      drives (AddMonitorUnix m dev') = drives m \<and>
      ifaces (AddMonitorUnix m dev') = ifaces m) \<and>
   Cores (run_ops (NewMachine cores memory) ops) = cores \<and>
   Memory (run_ops (NewMachine cores memory) ops) = memory"
proof -
  have "Cores (run_ops (NewMachine cores memory) ops) = cores \<and>
      Memory (run_ops (NewMachine cores memory) ops) = memory"
    using run_ops_sizing [of "NewMachine cores memory" ops] by (simp add: NewMachine_def)
  then show ?thesis
    by (simp add: AddCDRom_def AddDrive_def AddDriveImage_def AddNetworkDevice_def AddVNC_def
        AddMonitorUnix_def)
qed

theorem operations_frame_witness:
  "Cores
     (run_ops (NewMachine 2 1024)
       [OpAddCDRom ''/boot.iso'', OpAddDrive \<lparr>Path = ''/a.img'', Format = ''raw''\<rparr>,
        OpAddDriveImage \<lparr>Image.Path = ''/b.img'', Image.Format = ''qcow2''\<rparr>,
        OpAddNetworkDevice \<lparr>Type = ''user'', ID = ''net0'', IfName = [], MAC = []\<rparr>,
        OpAddVNC ''127.0.0.1'' 1, OpAddMonitorUnix ''/tmp/qmp.sock'']) = 2
   \<and> cd (AddVNC (AddCDRom (NewMachine 2 1024) ''/boot.iso'') ''127.0.0.1'' 1) = ''/boot.iso''"
proof -
  let ?m = "AddCDRom (NewMachine 2 1024) ''/boot.iso''"
  let ?ops = "[OpAddCDRom ''/boot.iso'', OpAddDrive \<lparr>Path = ''/a.img'', Format = ''raw''\<rparr>,
        OpAddDriveImage \<lparr>Image.Path = ''/b.img'', Image.Format = ''qcow2''\<rparr>,
        OpAddNetworkDevice \<lparr>Type = ''user'', ID = ''net0'', IfName = [], MAC = []\<rparr>,
        OpAddVNC ''127.0.0.1'' 1, OpAddMonitorUnix ''/tmp/qmp.sock'']"
  note inst = operations_frame
      [of ?m "''/x.iso''" "\<lparr>Path = ''/a.img'', Format = ''raw''\<rparr>"
        "\<lparr>Image.Path = ''/b.img'', Image.Format = ''qcow2''\<rparr>"
        "\<lparr>Type = ''user'', ID = ''net0'', IfName = [], MAC = []\<rparr>"
        "''127.0.0.1''" 1 "''/tmp/qmp.sock''" 2 1024 ?ops]
  from inst have sizing: "Cores (run_ops (NewMachine 2 1024) ?ops) = 2"
    by blast
  from inst have "cd (AddVNC ?m ''127.0.0.1'' 1) = cd ?m"
    by blast
  then have frame: "cd (AddVNC ?m ''127.0.0.1'' 1) = ''/boot.iso''"
    by (simp add: AddCDRom_def)
  from sizing frame show ?thesis by blast
qed

end
